theory Spec2Isabelle
  imports Main "HOL-Library.Sublist"
begin

section \<open>Medication reminder relay: scheduling and dispatch (main.py)\<close>

text \<open>
  The program registers daily reminders with the third-party \<^verbatim>\<open>schedule\<close> library, sends
  each one through an HTTP gateway (\<^verbatim>\<open>requests.post\<close>) and polls the scheduler in a
  background loop. The embedding follows main.py line by line; the library calls the
  program makes (\<^verbatim>\<open>str.strip\<close>, \<^verbatim>\<open>datetime.strptime\<close>, \<^verbatim>\<open>strftime\<close>, \<^verbatim>\<open>str\<close> of a
  list, \<^verbatim>\<open>Job.at\<close>, \<^verbatim>\<open>Job.do\<close>, \<^verbatim>\<open>run_pending\<close>) are modelled in the first
  subsections, each for the one way the program uses it.

  Text: a Python \<^verbatim>\<open>str\<close> is the \<^typ>\<open>string\<close> of the bytes of its UTF-8 encoding, so ASCII
  text is itself and the emoji of the source's literals are three or four bytes. The
  character classes of the library (whitespace, decimal digits, printable characters)
  are those of the ASCII range; a byte above 0x7F is an ordinary printable character.
  Output on stdout (\<^verbatim>\<open>print\<close>) is not modelled.
\<close>

subsection \<open>Exceptions\<close>

text \<open>
  Every exception of the program is a subclass of Python's \<^verbatim>\<open>Exception\<close>:
  \<^verbatim>\<open>ValueError\<close> from \<^verbatim>\<open>strptime\<close>, \<^verbatim>\<open>ScheduleValueError\<close> from \<^verbatim>\<open>Job.at\<close>, and whatever
  \<^verbatim>\<open>requests.post\<close> raises, which carries the text that \<^verbatim>\<open>str(e)\<close> returns.
\<close>

datatype exn = ValueError | ScheduleValueError | RequestException string

fun exn_str :: "exn \<Rightarrow> string" where
  "exn_str (RequestException msg) = msg"
| "exn_str ValueError = ''time data does not match format''"
| "exn_str ScheduleValueError = ''Invalid time format for a daily job''"

subsection \<open>Library: characters, \<^verbatim>\<open>str.strip\<close>, \<^verbatim>\<open>int\<close>\<close>

definition is_space :: "char \<Rightarrow> bool" where
  "is_space c \<longleftrightarrow> c \<in> {CHR 0x09, CHR 0x0A, CHR 0x0B, CHR 0x0C, CHR 0x0D,
                        CHR 0x1C, CHR 0x1D, CHR 0x1E, CHR 0x1F, CHR 0x20}"

definition is_digit :: "char \<Rightarrow> bool" where
  "is_digit c \<longleftrightarrow> c \<in> set ''0123456789''"

definition digit_val :: "char \<Rightarrow> nat" where
  "digit_val c = of_char c - 48"

definition digit_char :: "nat \<Rightarrow> char" where
  "digit_char d = char_of (48 + d)"

definition py_strip :: "string \<Rightarrow> string" where
  "py_strip s = rev (dropWhile is_space (rev (dropWhile is_space s)))"

subsection \<open>Library: \<^verbatim>\<open>datetime.strptime(s, "%I:%M %p")\<close> and \<^verbatim>\<open>strftime("%H:%M:%S")\<close>\<close>

text \<open>
  CPython compiles the format to the regular expression
  \<^verbatim>\<open>(?P<I>1[0-2]|0[1-9]|[1-9]):(?P<M>[0-5]\d|\d)\s+(?P<p>am|pm)\<close>, case-insensitive
  (the C locale's AM/PM), matches it at the start of the string and raises
  \<^verbatim>\<open>ValueError\<close> when it does not match or when text remains after the match. The
  functions below take the alternatives of each group in the expression's order. The
  first alternative that matches is final: were the engine to backtrack into a shorter
  one, a digit would stand where \<^verbatim>\<open>:\<close> or whitespace is required.
\<close>

fun re_I :: "string \<Rightarrow> (nat \<times> string) option" where
  "re_I (a # b # r) =
     (if a = CHR ''1'' \<and> b \<in> set ''012'' then Some (10 + digit_val b, r)
      else if a = CHR ''0'' \<and> b \<in> set ''123456789'' then Some (digit_val b, r)
      else if a \<in> set ''123456789'' then Some (digit_val a, b # r)
      else None)"
| "re_I [a] = (if a \<in> set ''123456789'' then Some (digit_val a, []) else None)"
| "re_I [] = None"

fun re_M :: "string \<Rightarrow> (nat \<times> string) option" where
  "re_M (a # b # r) =
     (if a \<in> set ''012345'' \<and> is_digit b then Some (10 * digit_val a + digit_val b, r)
      else if is_digit a then Some (digit_val a, b # r)
      else None)"
| "re_M [a] = (if is_digit a then Some (digit_val a, []) else None)"
| "re_M [] = None"

text \<open>The group \<^verbatim>\<open>p\<close>: \<^term>\<open>True\<close> for PM.\<close>

fun re_p :: "string \<Rightarrow> (bool \<times> string) option" where
  "re_p (a # b # r) =
     (if b \<in> set ''mM'' then
        (if a \<in> set ''aA'' then Some (False, r)
         else if a \<in> set ''pP'' then Some (True, r)
         else None)
      else None)"
| "re_p _ = None"

text \<open>
  The hour of the result, as \<^verbatim>\<open>_strptime\<close> computes it from the groups \<^verbatim>\<open>I\<close> and
  \<^verbatim>\<open>p\<close>: 12 AM is hour 0, 12 PM stays 12, any other PM hour gains 12.
\<close>

definition hour_24 :: "nat \<Rightarrow> bool \<Rightarrow> nat" where
  "hour_24 I pm = (if pm then (if I = 12 then 12 else I + 12) else (if I = 12 then 0 else I))"

text \<open>The parsed time of day: hour (0 to 23) and minute; the second is 0.\<close>

definition strptime_I_M_p :: "string \<Rightarrow> exn + (nat \<times> nat)" where
  "strptime_I_M_p s =
     (case re_I s of
        None \<Rightarrow> Inl ValueError
      | Some (I, r1) \<Rightarrow>
         (case r1 of
            [] \<Rightarrow> Inl ValueError
          | c # r2 \<Rightarrow>
             if c \<noteq> CHR '':'' then Inl ValueError
             else
               (case re_M r2 of
                  None \<Rightarrow> Inl ValueError
                | Some (M, r3) \<Rightarrow>
                   if r3 = [] \<or> \<not> is_space (hd r3) then Inl ValueError
                   else
                     (case re_p (dropWhile is_space r3) of
                        None \<Rightarrow> Inl ValueError
                      | Some (pm, r4) \<Rightarrow>
                         if r4 \<noteq> [] then Inl ValueError
                         else Inr (hour_24 I pm, M)))))"

definition two_digits :: "nat \<Rightarrow> string" where
  "two_digits n = [digit_char (n div 10), digit_char (n mod 10)]"

definition strftime_H_M_S :: "nat \<times> nat \<times> nat \<Rightarrow> string" where
  "strftime_H_M_S tm =
     (case tm of (h, m, s) \<Rightarrow> two_digits h @ '':'' @ two_digits m @ '':'' @ two_digits s)"

subsection \<open>The time normalizer (main.py, lines 90 to 95)\<close>

text \<open>
  The specification's \<^verbatim>\<open>normalize\<close> is the first statement of the loop body in
  \<^verbatim>\<open>schedule_reminder\<close>, from the entry \<^verbatim>\<open>t\<close> to \<^verbatim>\<open>t_24\<close>:
  \<^verbatim>\<open>
  try:
      t_24 = datetime.strptime(t.strip(), "%I:%M %p").strftime("%H:%M:%S")
  except:
      t_24 = t
  \<close>
\<close>

definition normalize_time :: "string \<Rightarrow> string" where
  "normalize_time t =
     (case strptime_I_M_p (py_strip t) of
        Inr (h, m) \<Rightarrow> strftime_H_M_S (h, m, 0)
      | Inl e \<Rightarrow> t)"

subsection \<open>Library: \<^verbatim>\<open>repr\<close> of a string and \<^verbatim>\<open>str\<close> of a list of strings\<close>

text \<open>
  An f-string formats a list with \<^verbatim>\<open>str\<close>, which writes the \<^verbatim>\<open>repr\<close> of each element:
  the string between quotes (double quotes when it holds a single quote and no double
  quote), with the quote, the backslash and every non-printable character escaped.
\<close>

definition hex_digit :: "nat \<Rightarrow> char" where
  "hex_digit n = ''0123456789abcdef'' ! (n mod 16)"

definition repr_char :: "char \<Rightarrow> char \<Rightarrow> string" where
  "repr_char q c =
     (if c = q \<or> c = CHR 0x5C then [CHR 0x5C, c]
      else if c = CHR 0x09 then [CHR 0x5C, CHR ''t'']
      else if c = CHR 0x0A then [CHR 0x5C, CHR ''n'']
      else if c = CHR 0x0D then [CHR 0x5C, CHR ''r'']
      else if (of_char c :: nat) < 32 \<or> (of_char c :: nat) = 127
        then [CHR 0x5C, CHR ''x'', hex_digit (of_char c div 16), hex_digit (of_char c)]
      else [c])"

definition py_repr :: "string \<Rightarrow> string" where
  "py_repr s =
     (let q = (if CHR 0x27 \<in> set s \<and> CHR 0x22 \<notin> set s then CHR 0x22 else CHR 0x27)
      in [q] @ concat (map (repr_char q) s) @ [q])"

fun py_join :: "string \<Rightarrow> string list \<Rightarrow> string" where
  "py_join sep [] = []"
| "py_join sep [x] = x"
| "py_join sep (x # y # ys) = x @ sep @ py_join sep (y # ys)"

definition py_str_list :: "string list \<Rightarrow> string" where
  "py_str_list xs = ''['' @ py_join '', '' (map py_repr xs) @ '']''"

subsection \<open>The gateway and the notification sender (main.py, lines 50 to 72)\<close>

text \<open>
  \<^verbatim>\<open>requests.post\<close> is the program's one effect on the outside. The model keeps the list
  of the calls made so far, each with its URL and its body, and takes the gateway as a
  function from that list (the current call last) to what the call gives back: a response
  with its status code and text (\<open>text_str\<close> for the attribute \<^verbatim>\<open>text\<close>), or a raised
  exception.
\<close>

record response =
  status_code :: nat
  text_str :: string

type_synonym posts = "(string \<times> string) list"

type_synonym gateway = "posts \<Rightarrow> exn + response"

definition requests_post :: "gateway \<Rightarrow> string \<Rightarrow> string \<Rightarrow> posts \<Rightarrow> (exn + response) \<times> posts" where
  "requests_post gw url body ps = (let ps' = ps @ [(url, body)] in (gw ps', ps'))"

record config =
  ULTRAMSG_URL :: string
  TOKEN :: string

record WhatsAppRequest =
  phone :: string
  message :: string

text \<open>The emoji of the source's literals: U+2705, U+274C and U+1F48A in UTF-8.\<close>

definition check_mark :: string where
  "check_mark = [CHR 0xE2, CHR 0x9C, CHR 0x85]"

definition cross_mark :: string where
  "cross_mark = [CHR 0xE2, CHR 0x9D, CHR 0x8C]"

definition pill :: string where
  "pill = [CHR 0xF0, CHR 0x9F, CHR 0x92, CHR 0x8A]"

text \<open>
  \<^verbatim>\<open>
  def send_whatsapp(data: WhatsAppRequest):
      url = f"{ULTRAMSG_URL}messages/chat"
      payload = f"token={TOKEN}&to={data.phone}&body={data.message}"
      headers = {"content-type": "application/x-www-form-urlencoded"}
      try:
          res = requests.post(url, data=payload.encode("utf8").decode("iso-8859-1"),
                              headers=headers)
          if res.status_code == 200:
              return {"status": "(check) WhatsApp message sent!"}
          return {"status": f"(cross) Failed: {res.text}"}
      except Exception as e:
          return {"status": f"(cross) Error: {str(e)}"}
  \<close>
  The result is the value of the returned dictionary's one key, \<^verbatim>\<open>status\<close>. The string
  handed to \<^verbatim>\<open>requests.post\<close> has one character per byte of the payload's UTF-8
  encoding, and the HTTP client sends one byte per character: the body on the wire is the
  payload's UTF-8 encoding, which is the payload itself here.
\<close>

definition send_whatsapp :: "config \<Rightarrow> gateway \<Rightarrow> WhatsAppRequest \<Rightarrow> posts \<Rightarrow> (exn + string) \<times> posts" where
  "send_whatsapp cfg gw data ps =
     (let url = ULTRAMSG_URL cfg @ ''messages/chat'';
          payload = ''token='' @ TOKEN cfg @ ''&to='' @ phone data @ ''&body='' @ message data
      in case requests_post gw url payload ps of
           (Inr res, ps') \<Rightarrow>
             (if status_code res = 200 then Inr (check_mark @ '' WhatsApp message sent!'')
              else Inr (cross_mark @ '' Failed: '' @ text_str res), ps')
         | (Inl e, ps') \<Rightarrow> (Inr (cross_mark @ '' Error: '' @ exn_str e), ps'))"

subsection \<open>Library: \<^verbatim>\<open>schedule.every().day.at(time_str).do(f)\<close> and \<^verbatim>\<open>run_pending\<close>\<close>

text \<open>
  A job of the scheduler: the time of day \<^verbatim>\<open>at\<close> stored, the instant of its next run,
  and the callable \<^verbatim>\<open>do\<close> stored. The clock is the local wall clock in whole seconds;
  a day is 86400 of them. A callable acts on the list of gateway calls and returns or
  raises.
\<close>

record Job =
  at_time :: "nat \<times> nat \<times> nat"
  next_run :: nat
  job_func :: "posts \<Rightarrow> (exn + unit) \<times> posts"

text \<open>
  \<^verbatim>\<open>Job.at\<close> for a daily job raises \<^verbatim>\<open>ScheduleValueError\<close> unless the string matches
  \<^verbatim>\<open>^[0-2]\d:[0-5]\d(:[0-5]\d)?$\<close> (where \<^verbatim>\<open>$\<close> also matches before one final newline)
  and its hour is at most 23; it stores hour, minute and second.
\<close>

definition daily_format :: "string \<Rightarrow> bool" where
  "daily_format b \<longleftrightarrow>
     (length b = 5 \<or> length b = 8) \<and>
     b ! 0 \<in> set ''012'' \<and> is_digit (b ! 1) \<and> b ! 2 = CHR '':'' \<and>
     b ! 3 \<in> set ''012345'' \<and> is_digit (b ! 4) \<and>
     (length b = 5 \<or> (b ! 5 = CHR '':'' \<and> b ! 6 \<in> set ''012345'' \<and> is_digit (b ! 7)))"

definition at_daily :: "string \<Rightarrow> exn + (nat \<times> nat \<times> nat)" where
  "at_daily time_str =
     (let b = (if time_str \<noteq> [] \<and> last time_str = CHR 0x0A then butlast time_str else time_str)
      in if \<not> daily_format b then Inl ScheduleValueError
         else
           let hour = 10 * digit_val (b ! 0) + digit_val (b ! 1);
               minute = 10 * digit_val (b ! 3) + digit_val (b ! 4);
               second = (if length b = 8 then 10 * digit_val (b ! 6) + digit_val (b ! 7) else 0)
           in if hour > 23 then Inl ScheduleValueError else Inr (hour, minute, second))"

text \<open>
  \<^verbatim>\<open>Job.do\<close> schedules the first run, and every run schedules the next: the first instant
  after \<^verbatim>\<open>now\<close> whose time of day is the job's.
\<close>

definition schedule_next_run :: "nat \<Rightarrow> nat \<times> nat \<times> nat \<Rightarrow> nat" where
  "schedule_next_run now tm =
     (case tm of (h, m, s) \<Rightarrow>
        let today = (now div 86400) * 86400 + (h * 3600 + m * 60 + s)
        in if today \<le> now then today + 86400 else today)"

text \<open>
  \<^verbatim>\<open>run_pending\<close> runs the jobs whose next run is due, ordered by it (a stable sort, so
  jobs due at the same instant run in the order of their registration). It catches
  nothing: an exception of a callable ends the pass and reaches the caller. A job that
  has run is scheduled for its next day. Jobs are named by their position in the
  scheduler's list.
\<close>

definition runnable_jobs :: "nat \<Rightarrow> Job list \<Rightarrow> nat list" where
  "runnable_jobs now jobs =
     sort_key (\<lambda>i. next_run (jobs ! i)) (filter (\<lambda>i. next_run (jobs ! i) \<le> now) [0..<length jobs])"

fun run_jobs :: "nat \<Rightarrow> nat list \<Rightarrow> Job list \<Rightarrow> posts \<Rightarrow> (exn + unit) \<times> Job list \<times> posts" where
  "run_jobs now [] jobs ps = (Inr (), jobs, ps)"
| "run_jobs now (i # is) jobs ps =
     (case job_func (jobs ! i) ps of
        (Inl e, ps') \<Rightarrow> (Inl e, jobs, ps')
      | (Inr u, ps') \<Rightarrow>
          run_jobs now is
            (jobs[i := (jobs ! i)\<lparr>next_run := schedule_next_run now (at_time (jobs ! i))\<rparr>]) ps')"

definition run_pending :: "nat \<Rightarrow> Job list \<Rightarrow> posts \<Rightarrow> (exn + unit) \<times> Job list \<times> posts" where
  "run_pending now jobs ps = run_jobs now (runnable_jobs now jobs) jobs ps"

subsection \<open>The registry: \<^verbatim>\<open>schedule_reminder\<close> (main.py, lines 76 to 100)\<close>

text \<open>
  \<^verbatim>\<open>
  def job(phone=phone, medicine=medicine, t=None):
      send_whatsapp(WhatsAppRequest(
          phone=phone,
          message=f"(pill) Reminder: It's time to take your medicine '{medicine}' at {t}"))
  \<close>
\<close>

definition reminder_message :: "string \<Rightarrow> string \<Rightarrow> string" where
  "reminder_message med t =
     pill @ '' Reminder: It'' @ [CHR 0x27] @ ''s time to take your medicine '' @ [CHR 0x27] @
     med @ [CHR 0x27] @ '' at '' @ t"

definition job :: "config \<Rightarrow> gateway \<Rightarrow> string \<Rightarrow> string \<Rightarrow> string \<Rightarrow> posts \<Rightarrow> (exn + unit) \<times> posts" where
  "job cfg gw ph med t ps =
     (case send_whatsapp cfg gw \<lparr>phone = ph, message = reminder_message med t\<rparr> ps of
        (Inl e, ps') \<Rightarrow> (Inl e, ps')
      | (Inr st, ps') \<Rightarrow> (Inr (), ps'))"

text \<open>
  \<^verbatim>\<open>
  for t in times:
      try: t_24 = datetime.strptime(t.strip(), "%I:%M %p").strftime("%H:%M:%S")
      except: t_24 = t
      schedule.every().day.at(t_24).do(job, t=t)
  return f"(check) Reminders for {medicine} scheduled at {times} for {phone}"
  \<close>
  The scheduler's job list is process-wide state: the function takes it and returns it
  with the result. An exception of \<^verbatim>\<open>at\<close> leaves the loop and the function, with the
  jobs of the earlier entries registered. The clock is read once for the call.
  \<^term>\<open>new_job\<close> is the job that \<^verbatim>\<open>every().day.at(t_24).do(job, t=t)\<close> appends, \<open>tm\<close> being
  the time of day that \<^verbatim>\<open>at\<close> read from \<^verbatim>\<open>t_24\<close>.
\<close>

definition new_job :: "config \<Rightarrow> gateway \<Rightarrow> string \<Rightarrow> string \<Rightarrow> nat \<Rightarrow> string \<Rightarrow> nat \<times> nat \<times> nat \<Rightarrow> Job" where
  "new_job cfg gw ph med now t tm =
     \<lparr>at_time = tm, next_run = schedule_next_run now tm, job_func = job cfg gw ph med t\<rparr>"

fun schedule_loop :: "config \<Rightarrow> gateway \<Rightarrow> string \<Rightarrow> string \<Rightarrow> nat \<Rightarrow> string list \<Rightarrow> Job list \<Rightarrow> (exn + unit) \<times> Job list" where
  "schedule_loop cfg gw ph med now [] jobs = (Inr (), jobs)"
| "schedule_loop cfg gw ph med now (t # ts) jobs =
     (let t_24 = normalize_time t
      in case at_daily t_24 of
           Inl e \<Rightarrow> (Inl e, jobs)
         | Inr tm \<Rightarrow> schedule_loop cfg gw ph med now ts (jobs @ [new_job cfg gw ph med now t tm]))"

text \<open>The returned f-string, for the medicine, the list of times and the phone.\<close>

definition confirmation :: "string \<Rightarrow> string list \<Rightarrow> string \<Rightarrow> string" where
  "confirmation med tms ph =
     check_mark @ '' Reminders for '' @ med @ '' scheduled at '' @ py_str_list tms @ '' for '' @ ph"

definition schedule_reminder :: "config \<Rightarrow> gateway \<Rightarrow> string \<Rightarrow> string \<Rightarrow> string list \<Rightarrow> nat \<Rightarrow> Job list \<Rightarrow> (exn + string) \<times> Job list" where
  "schedule_reminder cfg gw ph med tms now jobs =
     (case schedule_loop cfg gw ph med now tms jobs of
        (Inl e, jobs') \<Rightarrow> (Inl e, jobs')
      | (Inr u, jobs') \<Rightarrow> (Inr (confirmation med tms ph), jobs'))"

subsection \<open>The dispatch loop: \<^verbatim>\<open>run_schedule\<close> (main.py, lines 104 to 107)\<close>

text \<open>
  \<^verbatim>\<open>
  def run_schedule():
      while True:
          schedule.run_pending()
          time.sleep(1)
  \<close>
  The loop never returns; it ends only when an exception leaves \<^verbatim>\<open>run_pending\<close>. The
  model runs the poll cycles of a list of clock readings, one reading per cycle:
  \<^term>\<open>None\<close> says the loop is still running after them, \<^term>\<open>Some e\<close> that the exception
  \<open>e\<close> ended it (the later readings are not reached).
\<close>

fun run_schedule :: "nat list \<Rightarrow> Job list \<Rightarrow> posts \<Rightarrow> exn option \<times> Job list \<times> posts" where
  "run_schedule [] jobs ps = (None, jobs, ps)"
| "run_schedule (now # ticks) jobs ps =
     (case run_pending now jobs ps of
        (Inl e, jobs', ps') \<Rightarrow> (Some e, jobs', ps')
      | (Inr u, jobs', ps') \<Rightarrow> run_schedule ticks jobs' ps')"

subsection \<open>The forms of time the specification names\<close>

text \<open>
  A valid 12-hour input \<^verbatim>\<open>h:mm AM/PM\<close>: the hour 1 to 12 without padding, the minute in
  two digits, one space, the meridiem (\<^term>\<open>True\<close> for PM).
\<close>

definition show_12h :: "nat \<Rightarrow> nat \<Rightarrow> bool \<Rightarrow> string" where
  "show_12h h m pm =
     (if h < 10 then [digit_char h] else two_digits h) @ '':'' @ two_digits m @ '' '' @
     (if pm then ''PM'' else ''AM'')"

text \<open>A string in the form \<^verbatim>\<open>HH:MM:SS\<close>: three pairs of digits between colons.\<close>

definition is_HH_MM_SS :: "string \<Rightarrow> bool" where
  "is_HH_MM_SS s \<longleftrightarrow>
     length s = 8 \<and> is_digit (s ! 0) \<and> is_digit (s ! 1) \<and> s ! 2 = CHR '':'' \<and>
     is_digit (s ! 3) \<and> is_digit (s ! 4) \<and> s ! 5 = CHR '':'' \<and>
     is_digit (s ! 6) \<and> is_digit (s ! 7)"

subsection \<open>Registered triggers\<close>

text \<open>
  An entry of \<^verbatim>\<open>times\<close> is accepted when \<^verbatim>\<open>at\<close> does not raise on its normalized form;
  \<^term>\<open>trigger\<close> is then the job registered for it, and \<^term>\<open>trigger_request\<close> the call
  to the gateway that the job makes when it runs.
\<close>

definition accepted :: "string \<Rightarrow> bool" where
  "accepted t \<longleftrightarrow> \<not> isl (at_daily (normalize_time t))"

definition trigger :: "config \<Rightarrow> gateway \<Rightarrow> string \<Rightarrow> string \<Rightarrow> nat \<Rightarrow> string \<Rightarrow> Job" where
  "trigger cfg gw ph med now t = new_job cfg gw ph med now t (projr (at_daily (normalize_time t)))"

definition trigger_request :: "config \<Rightarrow> string \<times> string \<times> string \<Rightarrow> string \<times> string" where
  "trigger_request cfg l =
     (case l of (ph, med, t) \<Rightarrow>
        (ULTRAMSG_URL cfg @ ''messages/chat'',
         ''token='' @ TOKEN cfg @ ''&to='' @ ph @ ''&body='' @ reminder_message med t))"




text \<open>
  The jobs of a list are the reminder jobs of the labels of another: each callable is
  \<^term>\<open>job\<close> bound to the phone, medicine and time label at the same position.
\<close>

definition reminder_jobs :: "config \<Rightarrow> gateway \<Rightarrow> Job list \<Rightarrow> (string \<times> string \<times> string) list \<Rightarrow> bool" where
  "reminder_jobs cfg gw jobs ls \<longleftrightarrow>
     list_all2 (\<lambda>j l. job_func j = (case l of (ph, med, t) \<Rightarrow> job cfg gw ph med t)) jobs ls"

subsection \<open>The outcome of a send and the fields of a form body\<close>





subsection \<open>Example inputs\<close>

definition example_config :: config where
  "example_config = \<lparr>ULTRAMSG_URL = ''https://gateway.example/'', TOKEN = ''secret''\<rparr>"

text \<open>A gateway that answers every call with HTTP 200, and one that is unreachable.\<close>

definition gateway_ok :: gateway where
  "gateway_ok ps = Inr \<lparr>status_code = 200, text_str = ''ok''\<rparr>"



section \<open>The time normalizer\<close>

lemma digit_char_numerals:
  "digit_char 0 = CHR ''0''" "digit_char 1 = CHR ''1''" "digit_char 2 = CHR ''2''"
  "digit_char 3 = CHR ''3''" "digit_char 4 = CHR ''4''" "digit_char 5 = CHR ''5''"
  "digit_char 6 = CHR ''6''" "digit_char 7 = CHR ''7''" "digit_char 8 = CHR ''8''"
  "digit_char 9 = CHR ''9''" "digit_char (Suc 0) = CHR ''1''"
  by code_simp+

lemma digit_char_cases:
  fixes d :: nat
  assumes "d < 10"
  obtains "d = 0" | "d = 1" | "d = 2" | "d = 3" | "d = 4" | "d = 5" | "d = 6" | "d = 7" | "d = 8" | "d = 9"
  using assms by force

lemma digit_val_digit_char: "d < 10 \<Longrightarrow> digit_val (digit_char d) = d"
  by (simp add: digit_val_def digit_char_def)

lemma is_digit_digit_char: "d < 10 \<Longrightarrow> is_digit (digit_char d)"
  by (erule digit_char_cases) (simp_all add: is_digit_def digit_char_numerals)

lemma not_space_digit: "is_digit c \<Longrightarrow> \<not> is_space c"
  by (auto simp: is_digit_def is_space_def)

lemma digit_char_1_9: "1 \<le> d \<Longrightarrow> d < 10 \<Longrightarrow> digit_char d \<in> set ''123456789''"
  by (erule digit_char_cases) (simp_all add: digit_char_numerals)

lemma digit_char_0_2: "d \<le> 2 \<Longrightarrow> digit_char d \<in> set ''012''"
  by (cases "d = 0"; cases "d = 1"; cases "d = 2") (simp_all add: digit_char_numerals)

lemma digit_char_0_5: "d < 6 \<Longrightarrow> digit_char d \<in> set ''012345''"
  by (cases "d = 0"; cases "d = 1"; cases "d = 2"; cases "d = 3"; cases "d = 4"; cases "d = 5")
     (simp_all add: digit_char_numerals)

lemma re_I_one_digit:
  "1 \<le> h \<Longrightarrow> h < 10 \<Longrightarrow> re_I (digit_char h # CHR '':'' # r) = Some (h, CHR '':'' # r)"
  using digit_char_1_9[of h] by (simp add: digit_val_digit_char)

lemma re_I_two_digits:
  "10 \<le> h \<Longrightarrow> h \<le> 12 \<Longrightarrow> re_I (two_digits h @ r) = Some (h, r)"
proof -
  assume h: "10 \<le> h" "h \<le> 12"
  then have d: "h div 10 = 1" "h mod 10 = h - 10" "h - 10 \<le> 2" by presburger+
  show ?thesis
    using digit_char_0_2[OF d(3)] h
    by (simp add: two_digits_def d digit_char_numerals digit_val_digit_char)
qed

lemma re_M_two_digits:
  "m < 60 \<Longrightarrow> re_M (two_digits m @ r) = Some (m, r)"
proof -
  assume m: "m < 60"
  then have d: "m div 10 < 6" "m div 10 < 10" "m mod 10 < 10" by auto
  show ?thesis
    using digit_char_0_5[OF d(1)] is_digit_digit_char[OF d(3)]
    by (simp add: two_digits_def digit_val_digit_char d)
qed

lemma strptime_show_12h:
  assumes "1 \<le> h" "h \<le> 12" "m < 60"
  shows "strptime_I_M_p (show_12h h m pm) = Inr (hour_24 h pm, m)"
proof (cases "h < 10")
  case True
  with assms show ?thesis
    by (simp add: strptime_I_M_p_def show_12h_def re_I_one_digit re_M_two_digits is_space_def
          del: re_I.simps re_M.simps)
next
  case False
  with assms show ?thesis
    by (simp add: strptime_I_M_p_def show_12h_def re_I_two_digits re_M_two_digits is_space_def
          del: re_I.simps re_M.simps)
qed

lemma dropWhile_hd: "xs \<noteq> [] \<Longrightarrow> \<not> P (hd xs) \<Longrightarrow> dropWhile P xs = xs"
  by (cases xs) simp_all

lemma py_strip_id:
  assumes "s \<noteq> []" "\<not> is_space (hd s)" "\<not> is_space (last s)"
  shows "py_strip s = s"
proof -
  have front: "dropWhile is_space s = s"
    using assms(1,2) by (rule dropWhile_hd)
  have "dropWhile is_space (rev s) = rev s"
    using assms(1,3) by (intro dropWhile_hd) (simp_all add: hd_rev)
  with front show ?thesis
    by (simp add: py_strip_def)
qed

lemma py_strip_show_12h:
  assumes "h \<le> 12"
  shows "py_strip (show_12h h m pm) = show_12h h m pm"
proof (rule py_strip_id)
  show "show_12h h m pm \<noteq> []"
    by (simp add: show_12h_def)
  have "is_digit (hd (show_12h h m pm))"
    using assms by (simp add: show_12h_def two_digits_def is_digit_digit_char)
  then show "\<not> is_space (hd (show_12h h m pm))"
    by (rule not_space_digit)
  show "\<not> is_space (last (show_12h h m pm))"
    by (simp add: show_12h_def is_space_def)
qed

lemma hour_24_spec: "1 \<le> h \<Longrightarrow> h \<le> 12 \<Longrightarrow> hour_24 h pm = h mod 12 + (if pm then 12 else 0)"
  by (auto simp: hour_24_def)

text \<open>
  Claim C3. For every input in the valid 12-hour form \<^verbatim>\<open>h:mm AM/PM\<close> (hour 1 to 12, minute
  below 60), the normalizer returns the same time of day as zero-padded 24-hour
  \<^verbatim>\<open>HH:MM:SS\<close>: the hour is \<open>h mod 12\<close>, plus 12 for PM, and the second is 00. In
  particular \<^verbatim>\<open>10:30 PM\<close> gives \<^verbatim>\<open>22:30:00\<close> and \<^verbatim>\<open>9:05 AM\<close> gives \<^verbatim>\<open>09:05:00\<close>.
\<close>

theorem normalize_12_hour:
  assumes "1 \<le> h" "h \<le> 12" "m < 60"
  shows "normalize_time (show_12h h m pm) =
           two_digits (h mod 12 + (if pm then 12 else 0)) @ '':'' @ two_digits m @ '':00''"
  using assms strptime_show_12h[OF assms, of pm] hour_24_spec[of h pm]
  by (simp add: normalize_time_def py_strip_show_12h strftime_H_M_S_def two_digits_def
      digit_char_numerals)

theorem normalize_12_hour_witness:
  "normalize_time ''10:30 PM'' = ''22:30:00'' \<and> normalize_time ''9:05 AM'' = ''09:05:00''"
  using normalize_12_hour[of 10 30 True] normalize_12_hour[of 9 5 False]
  by (simp add: show_12h_def two_digits_def digit_char_numerals)

lemma is_HH_MM_SS_list:
  assumes "is_HH_MM_SS s"
  obtains a b c d e f where "s = [a, b, CHR '':'', c, d, CHR '':'', e, f]"
    "is_digit a" "is_digit b" "is_digit c" "is_digit d" "is_digit e" "is_digit f"
proof -
  from assms have len: "length s = 8" by (simp add: is_HH_MM_SS_def)
  then obtain x0 x1 x2 x3 x4 x5 x6 x7 where s: "s = [x0, x1, x2, x3, x4, x5, x6, x7]"
    by (auto simp: length_Suc_conv numeral_eq_Suc)
  with assms that show thesis
    by (simp add: is_HH_MM_SS_def)
qed

lemma strptime_HH_MM_SS:
  assumes "is_HH_MM_SS s"
  shows "strptime_I_M_p s = Inl ValueError"
proof -
  from assms obtain a b c d e f where s: "s = [a, b, CHR '':'', c, d, CHR '':'', e, f]"
    and digs: "is_digit a" "is_digit b" "is_digit c" "is_digit d"
    by (rule is_HH_MM_SS_list)
  from digs(2,4) have nc: "b \<noteq> CHR '':''" "d \<noteq> CHR '':''" "\<not> is_space d"
    by (auto simp: is_digit_def is_space_def)
  show ?thesis
    unfolding s strptime_I_M_p_def using nc digs
    by (auto simp: is_space_def split: option.splits list.splits if_splits)
qed

lemma py_strip_HH_MM_SS:
  assumes "is_HH_MM_SS s"
  shows "py_strip s = s"
proof -
  from assms obtain a b c d e f where s: "s = [a, b, CHR '':'', c, d, CHR '':'', e, f]"
    and digs: "is_digit a" "is_digit f"
    by (rule is_HH_MM_SS_list)
  show ?thesis
    unfolding s using digs by (intro py_strip_id) (simp_all add: not_space_digit)
qed

text \<open>
  Claim C4. Whenever the 12-hour parse of the trimmed input fails, the normalizer returns
  the raw input itself, untrimmed. The parse fails on every string in \<^verbatim>\<open>HH:MM:SS\<close> form,
  so the normalizer leaves such a string as it is and is idempotent on it.
\<close>

theorem normalize_fallback:
  "(strptime_I_M_p (py_strip raw) = Inl e \<longrightarrow> normalize_time raw = raw) \<and>
   (is_HH_MM_SS s \<longrightarrow>
      strptime_I_M_p (py_strip s) = Inl ValueError \<and> normalize_time s = s \<and>
      normalize_time (normalize_time s) = normalize_time s)"
  by (simp add: normalize_time_def py_strip_HH_MM_SS strptime_HH_MM_SS)

theorem normalize_fallback_witness:
  "normalize_time ''14:00:00'' = ''14:00:00'' \<and> normalize_time ''not-a-time'' = ''not-a-time'' \<and>
   normalize_time '' 14:00:00 '' = '' 14:00:00 '' \<and>
   normalize_time (normalize_time ''14:00:00'') = normalize_time ''14:00:00''"
proof -
  have a: "is_HH_MM_SS ''14:00:00''"
    by (simp add: is_HH_MM_SS_def is_digit_def)
  have b: "strptime_I_M_p (py_strip ''not-a-time'') = Inl ValueError"
    by (simp add: strptime_I_M_p_def py_strip_def is_space_def)
  have c: "strptime_I_M_p (py_strip '' 14:00:00 '') = Inl ValueError"
    by (simp add: strptime_I_M_p_def py_strip_def is_space_def is_digit_def digit_val_def)
  from a b c show ?thesis
    using normalize_fallback[of "''not-a-time''" ValueError "''14:00:00''"]
      normalize_fallback[of "'' 14:00:00 ''" ValueError "''14:00:00''"]
    by simp
qed

section \<open>The notification sender\<close>




section \<open>The body of the request\<close>











section \<open>The registry\<close>

lemma at_daily_error: "at_daily s = Inl e \<Longrightarrow> e = ScheduleValueError"
  by (auto simp: at_daily_def Let_def split: if_splits)


lemma not_accepted_Inl: "\<not> accepted t \<Longrightarrow> at_daily (normalize_time t) = Inl ScheduleValueError"
  by (cases "at_daily (normalize_time t)") (auto simp: accepted_def dest: at_daily_error)

lemma schedule_loop_result:
  "schedule_loop cfg gw ph med now tms jobs =
     (if list_all accepted tms then Inr () else Inl ScheduleValueError,
      jobs @ map (trigger cfg gw ph med now) (takeWhile accepted tms))"
proof (induction tms arbitrary: jobs)
  case Nil
  show ?case by simp
next
  case (Cons t ts)
  show ?case
  proof (cases "accepted t")
    case True
    from True obtain tm where tm: "at_daily (normalize_time t) = Inr tm"
      by (cases "at_daily (normalize_time t)") (auto simp: accepted_def)
    show ?thesis
      using True tm Cons.IH[of "jobs @ [new_job cfg gw ph med now t tm]"]
      by (simp add: trigger_def)
  next
    case False
    with not_accepted_Inl[OF False] show ?thesis by simp
  qed
qed

lemma schedule_reminder_result:
  "schedule_reminder cfg gw ph med tms now jobs =
     (if list_all accepted tms then Inr (confirmation med tms ph) else Inl ScheduleValueError,
      jobs @ map (trigger cfg gw ph med now) (takeWhile accepted tms))"
  by (simp add: schedule_reminder_def schedule_loop_result)







lemma run_schedule_empty: "run_schedule ticks [] ps = (None, [], ps)"
  by (induction ticks) (simp_all add: run_pending_def runnable_jobs_def)

text \<open>
  Claim C8. With an empty list of times \<^verbatim>\<open>schedule_reminder\<close> raises nothing, returns its
  confirmation and leaves the scheduler's jobs as they were; no trigger is created, and on
  a registry that holds nothing else the dispatch loop sends nothing, whatever the clock.
\<close>

theorem schedule_reminder_empty:
  "schedule_reminder cfg gw ph med [] now jobs =
     (Inr (check_mark @ '' Reminders for '' @ med @ '' scheduled at [] for '' @ ph), jobs) \<and>
   run_schedule ticks (snd (schedule_reminder cfg gw ph med [] now [])) ps = (None, [], ps)"
  by (simp add: schedule_reminder_def confirmation_def py_str_list_def run_schedule_empty)

section \<open>The dispatch loop\<close>

lemma job_run: "job cfg gw ph med t ps = (Inr (), ps @ [trigger_request cfg (ph, med, t)])"
  by (simp add: job_def send_whatsapp_def requests_post_def Let_def trigger_request_def
      split: sum.splits)



lemma reminder_jobs_triggers:
  "reminder_jobs cfg gw (map (trigger cfg gw ph med now) ts) (map (\<lambda>t. (ph, med, t)) ts)"
  by (simp add: reminder_jobs_def list_all2_map1 list_all2_map2 trigger_def new_job_def
      list_all2_same)


lemma reminder_jobs_length: "reminder_jobs cfg gw jobs ls \<Longrightarrow> length jobs = length ls"
  by (simp add: reminder_jobs_def list_all2_lengthD)

lemma reminder_jobs_nth:
  "reminder_jobs cfg gw jobs ls \<Longrightarrow> i < length jobs \<Longrightarrow>
   job_func (jobs ! i) ps = (Inr (), ps @ [trigger_request cfg (ls ! i)])"
  by (cases "ls ! i") (auto simp: reminder_jobs_def list_all2_conv_all_nth job_run)

lemma reminder_jobs_update:
  "reminder_jobs cfg gw jobs ls \<Longrightarrow> i < length jobs \<Longrightarrow>
   reminder_jobs cfg gw (jobs[i := (jobs ! i)\<lparr>next_run := n\<rparr>]) ls"
  by (auto simp: reminder_jobs_def list_all2_conv_all_nth nth_list_update)

lemma run_jobs_reminders:
  "reminder_jobs cfg gw jobs ls \<Longrightarrow> \<forall>i\<in>set is. i < length jobs \<Longrightarrow>
   \<exists>jobs'. run_jobs now is jobs ps = (Inr (), jobs', ps @ map (\<lambda>i. trigger_request cfg (ls ! i)) is) \<and>
           reminder_jobs cfg gw jobs' ls \<and> map at_time jobs' = map at_time jobs"
proof (induction "is" arbitrary: jobs ps)
  case Nil
  then show ?case by simp
next
  case (Cons i "is")
  let ?jobs = "jobs[i := (jobs ! i)\<lparr>next_run := schedule_next_run now (at_time (jobs ! i))\<rparr>]"
  from Cons.prems have i: "i < length jobs" by simp
  have inv: "reminder_jobs cfg gw ?jobs ls"
    using Cons.prems(1) i by (rule reminder_jobs_update)
  have at: "map at_time ?jobs = map at_time jobs"
    using i by (simp add: map_update list_update_same_conv)
  from Cons.prems(2) have "\<forall>k\<in>set is. k < length ?jobs" by simp
  from Cons.IH[OF inv this, of "ps @ [trigger_request cfg (ls ! i)]"] at
  show ?case
    by (auto simp: reminder_jobs_nth[OF Cons.prems(1) i])
qed

lemma runnable_jobs_set:
  "set (runnable_jobs now jobs) = {i. i < length jobs \<and> next_run (jobs ! i) \<le> now}"
  by (auto simp: runnable_jobs_def)

lemma runnable_jobs_distinct: "distinct (runnable_jobs now jobs)"
  by (simp add: runnable_jobs_def)

lemma run_pending_reminders:
  assumes "reminder_jobs cfg gw jobs ls"
  shows "\<exists>jobs'. run_pending now jobs ps =
            (Inr (), jobs', ps @ map (\<lambda>i. trigger_request cfg (ls ! i)) (runnable_jobs now jobs)) \<and>
           reminder_jobs cfg gw jobs' ls \<and> map at_time jobs' = map at_time jobs"
  unfolding run_pending_def
  by (rule run_jobs_reminders[OF assms]) (simp add: runnable_jobs_set)


section \<open>The confirmation and the message\<close>











lemma message_holds:
  "sublist med (reminder_message med t)" "suffix t (reminder_message med t)"
proof -
  have "reminder_message med t =
          (pill @ '' Reminder: It'' @ [CHR 0x27] @ ''s time to take your medicine '' @ [CHR 0x27]) @
          med @ ([CHR 0x27] @ '' at '' @ t)"
    by (simp add: reminder_message_def)
  then show "sublist med (reminder_message med t)"
    by (simp only: sublist_appendI)
  have "reminder_message med t =
          (pill @ '' Reminder: It'' @ [CHR 0x27] @ ''s time to take your medicine '' @ [CHR 0x27] @
           med @ [CHR 0x27] @ '' at '') @ t"
    by (simp add: reminder_message_def)
  then show "suffix t (reminder_message med t)"
    by (simp only: suffix_def) blast
qed

section \<open>Registration\<close>

lemma accepted_examples2:
  "accepted ''9:05 AM\<newline>''" "accepted ''10:30 PM''"
  by code_simp+

lemma at_daily_examples2:
  "at_daily (normalize_time ''10:30 PM'') = Inr (22, 30, 0)"
  by code_simp



lemma other_label_example: "\<not> sublist ''22:30:00'' (reminder_message ''Aspirin'' ''10:30 PM'')"
  by code_simp





lemma schedule_reminder_fresh:
  "snd (schedule_reminder cfg gw ph med tms now []) =
     map (trigger cfg gw ph med now) (takeWhile accepted tms)"
  by (simp add: schedule_reminder_result)

text \<open>
  Claim C7. The job registered for the \<open>i\<close>-th entry, when it runs, makes exactly one call
  to the gateway, for the trigger's phone, with a message that holds the medicine and
  ends with the entry as it was given, not its normalized form. In a poll cycle over the
  triggers of a registration, each trigger that is due is run once, and no other.
\<close>

theorem trigger_sends_once:
  assumes "i < length (takeWhile accepted tms)"
  shows "job_func (snd (schedule_reminder cfg gw ph med tms now jobs) ! (length jobs + i)) ps =
           (Inr (), ps @ [(ULTRAMSG_URL cfg @ ''messages/chat'',
                           ''token='' @ TOKEN cfg @ ''&to='' @ ph @ ''&body='' @
                           reminder_message med (tms ! i))]) \<and>
         sublist med (reminder_message med (tms ! i)) \<and>
         suffix (tms ! i) (reminder_message med (tms ! i)) \<and>
         (\<exists>jobs'. run_pending clock (snd (schedule_reminder cfg gw ph med tms now [])) ps =
            (Inr (), jobs',
             ps @ map (\<lambda>k. trigger_request cfg (ph, med, tms ! k))
                    (runnable_jobs clock (snd (schedule_reminder cfg gw ph med tms now []))))) \<and>
         distinct (runnable_jobs clock (snd (schedule_reminder cfg gw ph med tms now [])))"
proof -
  let ?tw = "takeWhile accepted tms"
  let ?J = "map (trigger cfg gw ph med now) ?tw"
  let ?ls = "map (\<lambda>t. (ph, med, t)) ?tw"
  have nth: "?tw ! k = tms ! k" if "k < length ?tw" for k
    using that by (rule takeWhile_nth)
  have "snd (schedule_reminder cfg gw ph med tms now jobs) ! (length jobs + i) =
          trigger cfg gw ph med now (tms ! i)"
    using assms by (simp add: schedule_reminder_result nth)
  then have one: "job_func (snd (schedule_reminder cfg gw ph med tms now jobs) ! (length jobs + i)) ps =
           (Inr (), ps @ [(ULTRAMSG_URL cfg @ ''messages/chat'',
                           ''token='' @ TOKEN cfg @ ''&to='' @ ph @ ''&body='' @
                           reminder_message med (tms ! i))])"
    by (simp add: trigger_def new_job_def job_run trigger_request_def)
  have inv: "reminder_jobs cfg gw ?J ?ls"
    by (rule reminder_jobs_triggers)
  from run_pending_reminders[OF inv, of clock ps] obtain jobs' where
    run: "run_pending clock ?J ps =
            (Inr (), jobs', ps @ map (\<lambda>k. trigger_request cfg (?ls ! k)) (runnable_jobs clock ?J))"
    by blast
  have "map (\<lambda>k. trigger_request cfg (?ls ! k)) (runnable_jobs clock ?J) =
        map (\<lambda>k. trigger_request cfg (ph, med, tms ! k)) (runnable_jobs clock ?J)"
    by (rule map_cong) (auto simp: runnable_jobs_set nth)
  with run have loop: "\<exists>jobs'. run_pending clock ?J ps =
            (Inr (), jobs', ps @ map (\<lambda>k. trigger_request cfg (ph, med, tms ! k)) (runnable_jobs clock ?J))"
    by simp
  from one loop show ?thesis
    by (simp add: message_holds schedule_reminder_fresh runnable_jobs_distinct)
qed

lemma example_config_fields:
  "ULTRAMSG_URL example_config = ''https://gateway.example/''" "TOKEN example_config = ''secret''"
  by (simp_all add: example_config_def)

lemma next_run_example:
  "next_run (trigger example_config gateway_ok ''+1555'' ''Aspirin'' 0 ''10:30 PM'') = 81000"
  by (simp add: trigger_def new_job_def at_daily_examples2 schedule_next_run_def)

theorem trigger_sends_once_witness:
  "job_func (snd (schedule_reminder example_config gateway_ok ''+1555'' ''Aspirin'' [''10:30 PM''] 0 []) ! 0) [] =
     (Inr (), [(''https://gateway.example/messages/chat'',
                ''token=secret&to=+1555&body='' @ reminder_message ''Aspirin'' ''10:30 PM'')]) \<and>
   suffix ''10:30 PM'' (reminder_message ''Aspirin'' ''10:30 PM'') \<and>
   \<not> sublist ''22:30:00'' (reminder_message ''Aspirin'' ''10:30 PM'') \<and>
   snd (snd (run_pending 81000
               (snd (schedule_reminder example_config gateway_ok ''+1555'' ''Aspirin'' [''10:30 PM''] 0 []))
               [])) =
     [(''https://gateway.example/messages/chat'',
       ''token=secret&to=+1555&body='' @ reminder_message ''Aspirin'' ''10:30 PM'')]"
proof -
  have i: "0 < length (takeWhile accepted [''10:30 PM''])"
    by (simp add: accepted_examples2)
  have r: "runnable_jobs 81000
             (snd (schedule_reminder example_config gateway_ok ''+1555'' ''Aspirin'' [''10:30 PM''] 0 [])) = [0]"
    by (simp add: schedule_reminder_fresh accepted_examples2 runnable_jobs_def next_run_example)
  from trigger_sends_once[OF i, of example_config gateway_ok "''+1555''" "''Aspirin''" 0 "[]" "[]" 81000]
  show ?thesis
    using other_label_example
    by (auto simp: r trigger_request_def example_config_fields simp del: sublist_code)
qed










end
